theory Spec2Isabelle
  imports Main "HOL-Library.Word"
begin

section \<open>Security identifiers\<close>

text \<open>
  The package \<open>windowssecurity\<close> that declares the type \<open>SID\<close> and its methods is not
  among the sources; \<open>analyzer.go\<close> only calls \<open>Components\<close>, \<open>StripRID\<close>, \<open>RID\<close> and
  \<open>AddComponent\<close>. The specification describes a security identifier as "a structured
  value with an ordered sequence of numeric components" that supports "component count,
  last-component extraction, prefix-stripping (drop last component), and prefix-append".
\<close>

type_synonym SID = "nat list"

definition Components :: "SID \<Rightarrow> nat" where
  \<comment> \<open>Modelled from the spec: the method \<open>SID.Components\<close> of package windowssecurity is
     missing; "component count".\<close>
  "Components sid = length sid"

definition StripRID :: "SID \<Rightarrow> SID option" where
  \<comment> \<open>Modelled from the spec: the method \<open>SID.StripRID\<close> of package windowssecurity is
     missing; "prefix-stripping (drop last component)". An identifier without components
     has no last component to drop: the operation has no result there.\<close>
  "StripRID sid = (case sid of [] \<Rightarrow> None | _ # _ \<Rightarrow> Some (butlast sid))"

definition RID :: "SID \<Rightarrow> nat option" where
  \<comment> \<open>Modelled from the spec: the method \<open>SID.RID\<close> of package windowssecurity is missing;
     "last-component extraction (relative identifier)". No result on an identifier
     without components.\<close>
  "RID sid = (case sid of [] \<Rightarrow> None | _ # _ \<Rightarrow> Some (last sid))"

definition AddComponent :: "SID \<Rightarrow> nat \<Rightarrow> SID" where
  \<comment> \<open>Modelled from the spec: the method \<open>SID.AddComponent\<close> of package windowssecurity is
     missing; "prefix-append (attach a new relative identifier to a different prefix)".\<close>
  "AddComponent sid rid = sid @ [rid]"

text \<open>
  \<open>MapSID\<close> of \<open>analyzer.go\<close>, lines 88 to 99. A primitive without result (a panic of
  the callee) makes the whole call end without result: \<open>None\<close>.
  \<^verbatim>\<open>
  func MapSID(original, new, input windowssecurity.SID) windowssecurity.SID {
      if input.Components() == original.Components()+1 {
          if input.StripRID() == original {
              return new.AddComponent(input.RID())
          }
      }
      return input
  }
  \<close>
\<close>

definition MapSID :: "SID \<Rightarrow> SID \<Rightarrow> SID \<Rightarrow> SID option" where
  "MapSID original new input =
     (if Components input = Components original + 1 then
        (case StripRID input of
           None \<Rightarrow> None
         | Some stripped \<Rightarrow>
             if stripped = original then
               (case RID input of
                  None \<Rightarrow> None
                | Some rid \<Rightarrow> Some (AddComponent new rid))
             else Some input)
      else Some input)"

section \<open>Edge kinds and their probability calculators\<close>

text \<open>
  The package \<open>engine\<close> (the types \<open>Object\<close>, \<open>Probability\<close>, \<open>EdgeBitmap\<close>, the edge
  registry with \<open>NewEdge\<close>, \<open>Tag\<close>, \<open>Describe\<close> and \<open>RegisterProbabilityCalculator\<close>, and
  the path search) is not among the sources either. The type of objects stays a type
  parameter \<open>'obj\<close>: no calculator of \<open>analyzer.go\<close> looks into its arguments.
\<close>

type_synonym Probability = int
  \<comment> \<open>Modelled from the spec: the declaration of \<open>engine.Probability\<close> is missing; a
     probability is an integer of the range 0 to 100. No calculator computes with it.\<close>

type_synonym EdgeBitmap = "64 word"
  \<comment> \<open>Modelled from the spec: the declaration of \<open>engine.EdgeBitmap\<close> is missing; "a
     fixed-width integer where bit i means edge kind i is present between this pair".\<close>

text \<open>
  A calculator is a Go closure \<open>func(source, target *engine.Object) engine.Probability\<close>.
  Adjacency and attribute data are reached through the two objects. What a closure
  could reach beyond its arguments is the dispatch of the engine,
  \<open>edge.MaxProbability(potential, target)\<close>, which evaluates the calculators of the edge
  kinds of a bitmask on another pair of objects. The model hands this dispatch to the
  calculator as its first argument, so that a calculator that invoked it would be a
  function that depends on it.
\<close>

type_synonym 'obj dispatch = "EdgeBitmap \<Rightarrow> 'obj \<Rightarrow> 'obj \<Rightarrow> Probability"

type_synonym 'obj calculator = "'obj dispatch \<Rightarrow> 'obj \<Rightarrow> 'obj \<Rightarrow> Probability"

text \<open>
  Modelled from the spec: the edge kind descriptor of package \<open>engine\<close> is missing; it
  holds the label, the classification tags, the description and the optional
  calculator of an edge kind.
\<close>

record 'obj Edge =
  Name :: string
  Tags :: "string list"
  Description :: string
  Calculator :: "'obj calculator option"

definition NewEdge :: "string \<Rightarrow> 'obj Edge" where
  \<comment> \<open>Modelled from the spec: \<open>engine.NewEdge\<close> is missing; an edge kind descriptor is
     "human label, zero or more classification tags, and an optional probability
     calculator", and a new kind has no tag and no calculator yet.\<close>
  "NewEdge name = \<lparr>Name = name, Tags = [], Description = [], Calculator = None\<rparr>"

definition Tag :: "string \<Rightarrow> 'obj Edge \<Rightarrow> 'obj Edge" where
  \<comment> \<open>Modelled from the spec: the method \<open>Edge.Tag\<close> of package engine is missing; it
     adds one classification tag to the descriptor.\<close>
  "Tag t e = e\<lparr>Tags := Tags e @ [t]\<rparr>"

definition Describe :: "string \<Rightarrow> 'obj Edge \<Rightarrow> 'obj Edge" where
  \<comment> \<open>Modelled from the spec: the method \<open>Edge.Describe\<close> of package engine is missing;
     it sets the description of the descriptor.\<close>
  "Describe d e = e\<lparr>Description := d\<rparr>"

definition RegisterProbabilityCalculator :: "'obj calculator \<Rightarrow> 'obj Edge \<Rightarrow> 'obj Edge" where
  \<comment> \<open>Modelled from the spec: the method \<open>Edge.RegisterProbabilityCalculator\<close> of package
     engine is missing; "each edge kind optionally carries a calculator".\<close>
  "RegisterProbabilityCalculator f e = e\<lparr>Calculator := Some f\<rparr>"

text \<open>
  The closure registered on \<open>RDPRights\<close>, \<open>analyzer.go\<close>, lines 17 to 35. The traversal of
  the inbound edges of the target, with its call of \<open>edge.MaxProbability\<close>, is inside a
  comment (lines 19 to 30, "ENDLESS LOOPS"): it is no part of the program.
  \<^verbatim>\<open>
  func(source, target *engine.Object) engine.Probability {
      var probability engine.Probability
      /* ENDLESS LOOPS ... */
      if probability < 30 {
          probability = 30
      }
      return probability
  }
  \<close>
\<close>

definition EdgeLocalRDPRights_calculator :: "'obj calculator" where
  "EdgeLocalRDPRights_calculator MaxProbability source target =
     (let probability = (0 :: Probability);
          probability = (if probability < 30 then 30 else probability)
      in probability)"

text \<open>The edge kinds of the \<open>var\<close> block of \<open>analyzer.go\<close>, lines 16 to 83, in its order.\<close>

definition EdgeLocalAdminRights :: "'obj Edge" where
  \<comment> \<open>\<open>analyzer.go\<close>, line 16\<close>
  "EdgeLocalAdminRights =
     Tag ''Granted'' (NewEdge ''AdminRights'')"

definition EdgeLocalRDPRights :: "'obj Edge" where
  \<comment> \<open>\<open>analyzer.go\<close>, line 17\<close>
  "EdgeLocalRDPRights =
     Tag ''Pivot'' (Tag ''Granted'' (RegisterProbabilityCalculator EdgeLocalRDPRights_calculator
       (NewEdge ''RDPRights'')))"

definition EdgeLocalDCOMRights :: "'obj Edge" where
  \<comment> \<open>\<open>analyzer.go\<close>, line 36\<close>
  "EdgeLocalDCOMRights =
     Tag ''Granted'' (RegisterProbabilityCalculator (\<lambda>MaxProbability source target. 50)
       (NewEdge ''DCOMRights''))"

definition EdgeLocalSMSAdmins :: "'obj Edge" where
  \<comment> \<open>\<open>analyzer.go\<close>, line 37\<close>
  "EdgeLocalSMSAdmins =
     Tag ''Granted'' (RegisterProbabilityCalculator (\<lambda>MaxProbability source target. 50)
       (NewEdge ''SMSAdmins''))"

definition EdgeLocalSessionLastDay :: "'obj Edge" where
  \<comment> \<open>\<open>analyzer.go\<close>, line 38\<close>
  "EdgeLocalSessionLastDay =
     Tag ''Pivot'' (RegisterProbabilityCalculator (\<lambda>MaxProbability source target. 80)
       (NewEdge ''SessionLastDay''))"

definition EdgeLocalSessionLastWeek :: "'obj Edge" where
  \<comment> \<open>\<open>analyzer.go\<close>, line 39\<close>
  "EdgeLocalSessionLastWeek =
     Tag ''Pivot'' (RegisterProbabilityCalculator (\<lambda>MaxProbability source target. 55)
       (NewEdge ''SessionLastWeek''))"

definition EdgeLocalSessionLastMonth :: "'obj Edge" where
  \<comment> \<open>\<open>analyzer.go\<close>, line 40\<close>
  "EdgeLocalSessionLastMonth =
     Tag ''Pivot'' (RegisterProbabilityCalculator (\<lambda>MaxProbability source target. 30)
       (NewEdge ''SessionLastMonth''))"

definition EdgeHasServiceAccountCredentials :: "'obj Edge" where
  \<comment> \<open>\<open>analyzer.go\<close>, line 41\<close>
  "EdgeHasServiceAccountCredentials =
     Tag ''Pivot'' (NewEdge ''SvcAccntCreds'')"

definition EdgeHasAutoAdminLogonCredentials :: "'obj Edge" where
  \<comment> \<open>\<open>analyzer.go\<close>, line 42\<close>
  "EdgeHasAutoAdminLogonCredentials =
     Tag ''Pivot'' (NewEdge ''AutoAdminLogonCreds'')"

definition EdgeRunsExecutable :: "'obj Edge" where
  \<comment> \<open>\<open>analyzer.go\<close>, line 43\<close>
  "EdgeRunsExecutable =
     NewEdge ''RunsExecutable''"

definition EdgeHosts :: "'obj Edge" where
  \<comment> \<open>\<open>analyzer.go\<close>, line 44\<close>
  "EdgeHosts =
     NewEdge ''Hosts''"

definition EdgeExecuted :: "'obj Edge" where
  \<comment> \<open>\<open>analyzer.go\<close>, line 45\<close>
  "EdgeExecuted =
     NewEdge ''Executed''"

definition EdgeMemberOfGroup :: "'obj Edge" where
  \<comment> \<open>\<open>analyzer.go\<close>, line 46\<close>
  "EdgeMemberOfGroup =
     NewEdge ''MemberOfGroup''"

definition EdgeFileWrite :: "'obj Edge" where
  \<comment> \<open>\<open>analyzer.go\<close>, line 47\<close>
  "EdgeFileWrite =
     NewEdge ''FileWrite''"

definition EdgeFileRead :: "'obj Edge" where
  \<comment> \<open>\<open>analyzer.go\<close>, line 48\<close>
  "EdgeFileRead =
     NewEdge ''FileRead''"

definition EdgeShares :: "'obj Edge" where
  \<comment> \<open>\<open>analyzer.go\<close>, line 49\<close>
  "EdgeShares =
     Describe ''Machine offers a file share'' (NewEdge ''Shares'')"

definition EdgeRegistryOwns :: "'obj Edge" where
  \<comment> \<open>\<open>analyzer.go\<close>, line 50\<close>
  "EdgeRegistryOwns =
     NewEdge ''RegistryOwns''"

definition EdgeRegistryWrite :: "'obj Edge" where
  \<comment> \<open>\<open>analyzer.go\<close>, line 51\<close>
  "EdgeRegistryWrite =
     NewEdge ''RegistryWrite''"

definition EdgeRegistryModifyDACL :: "'obj Edge" where
  \<comment> \<open>\<open>analyzer.go\<close>, line 52\<close>
  "EdgeRegistryModifyDACL =
     NewEdge ''RegistryModifyDACL''"

definition EdgeRegistryModifyOwner :: "'obj Edge" where
  \<comment> \<open>\<open>analyzer.go\<close>, line 53\<close>
  "EdgeRegistryModifyOwner =
     NewEdge ''RegistryModifyOwner''"

definition EdgeSeBackupPrivilege :: "'obj Edge" where
  \<comment> \<open>\<open>analyzer.go\<close>, line 55\<close>
  "EdgeSeBackupPrivilege =
     NewEdge ''SeBackupPrivilege''"

definition EdgeSeRestorePrivilege :: "'obj Edge" where
  \<comment> \<open>\<open>analyzer.go\<close>, line 56\<close>
  "EdgeSeRestorePrivilege =
     NewEdge ''SeRestorePrivilege''"

definition EdgeSeTakeOwnershipPrivilege :: "'obj Edge" where
  \<comment> \<open>\<open>analyzer.go\<close>, line 57\<close>
  "EdgeSeTakeOwnershipPrivilege =
     NewEdge ''SeTakeOwnershipPrivilege''"

definition EdgeSeAssignPrimaryToken :: "'obj Edge" where
  \<comment> \<open>\<open>analyzer.go\<close>, line 59\<close>
  "EdgeSeAssignPrimaryToken =
     Tag ''Pivot'' (NewEdge ''SeAssignPrimaryToken'')"

definition EdgeSeCreateToken :: "'obj Edge" where
  \<comment> \<open>\<open>analyzer.go\<close>, line 60\<close>
  "EdgeSeCreateToken =
     Tag ''Pivot'' (NewEdge ''SeCreateToken'')"

definition EdgeSeDebug :: "'obj Edge" where
  \<comment> \<open>\<open>analyzer.go\<close>, line 61\<close>
  "EdgeSeDebug =
     Tag ''Pivot'' (NewEdge ''SeDebug'')"

definition EdgeSeImpersonate :: "'obj Edge" where
  \<comment> \<open>\<open>analyzer.go\<close>, line 62\<close>
  "EdgeSeImpersonate =
     Tag ''Pivot'' (RegisterProbabilityCalculator (\<lambda>MaxProbability source target. 20)
       (NewEdge ''SeImpersonate''))"

definition EdgeSeLoadDriver :: "'obj Edge" where
  \<comment> \<open>\<open>analyzer.go\<close>, line 63\<close>
  "EdgeSeLoadDriver =
     Tag ''Pivot'' (NewEdge ''SeLoadDriver'')"

definition EdgeSeManageVolume :: "'obj Edge" where
  \<comment> \<open>\<open>analyzer.go\<close>, line 64\<close>
  "EdgeSeManageVolume =
     Tag ''Pivot'' (NewEdge ''SeManageVolume'')"

definition EdgeSeTakeOwnership :: "'obj Edge" where
  \<comment> \<open>\<open>analyzer.go\<close>, line 65\<close>
  "EdgeSeTakeOwnership =
     Tag ''Pivot'' (NewEdge ''SeTakeOwnership'')"

definition EdgeSeTrustedCredManAccess :: "'obj Edge" where
  \<comment> \<open>\<open>analyzer.go\<close>, line 66\<close>
  "EdgeSeTrustedCredManAccess =
     Tag ''Pivot'' (NewEdge ''SeTrustedCredManAccess'')"

definition EdgeSeTcb :: "'obj Edge" where
  \<comment> \<open>\<open>analyzer.go\<close>, line 67\<close>
  "EdgeSeTcb =
     Tag ''Pivot'' (NewEdge ''SeTcb'')"

definition EdgeSeNetworkLogonRight :: "'obj Edge" where
  \<comment> \<open>\<open>analyzer.go\<close>, line 69\<close>
  "EdgeSeNetworkLogonRight =
     RegisterProbabilityCalculator (\<lambda>MaxProbability source target. 10)
       (NewEdge ''SeNetworkLogonRight'')"

definition EdgeSIDCollision :: "'obj Edge" where
  \<comment> \<open>\<open>analyzer.go\<close>, line 76\<close>
  "EdgeSIDCollision =
     RegisterProbabilityCalculator (\<lambda>MaxProbability source target. 0)
       (Tag ''Informative'' (NewEdge ''SIDCollision''))"

definition EdgeControlsUpdates :: "'obj Edge" where
  \<comment> \<open>\<open>analyzer.go\<close>, line 79\<close>
  "EdgeControlsUpdates =
     Tag ''Affects'' (NewEdge ''ControlsUpdates'')"

definition EdgePublishes :: "'obj Edge" where
  \<comment> \<open>\<open>analyzer.go\<close>, line 83\<close>
  "EdgePublishes =
     Tag ''Informative'' (NewEdge ''Publishes'')"

definition AnalyzerEdges :: "'obj Edge list" where
  "AnalyzerEdges =
     [EdgeLocalAdminRights,
      EdgeLocalRDPRights,
      EdgeLocalDCOMRights,
      EdgeLocalSMSAdmins,
      EdgeLocalSessionLastDay,
      EdgeLocalSessionLastWeek,
      EdgeLocalSessionLastMonth,
      EdgeHasServiceAccountCredentials,
      EdgeHasAutoAdminLogonCredentials,
      EdgeRunsExecutable,
      EdgeHosts,
      EdgeExecuted,
      EdgeMemberOfGroup,
      EdgeFileWrite,
      EdgeFileRead,
      EdgeShares,
      EdgeRegistryOwns,
      EdgeRegistryWrite,
      EdgeRegistryModifyDACL,
      EdgeRegistryModifyOwner,
      EdgeSeBackupPrivilege,
      EdgeSeRestorePrivilege,
      EdgeSeTakeOwnershipPrivilege,
      EdgeSeAssignPrimaryToken,
      EdgeSeCreateToken,
      EdgeSeDebug,
      EdgeSeImpersonate,
      EdgeSeLoadDriver,
      EdgeSeManageVolume,
      EdgeSeTakeOwnership,
      EdgeSeTrustedCredManAccess,
      EdgeSeTcb,
      EdgeSeNetworkLogonRight,
      EdgeSIDCollision,
      EdgeControlsUpdates,
      EdgePublishes]"

section \<open>Closures and the invocations they make\<close>

text \<open>
  A function of HOL cannot tell a closure that calls \<open>edge.MaxProbability\<close> and drops the
  answer from one that never calls it. To speak about the calls themselves, the body of
  a closure is written as a computation: it either returns a probability, or it invokes
  the dispatch on an edge bitmask and a pair of objects and goes on with the answer.
\<close>

datatype 'obj computation =
    Return Probability
  | CallMaxProbability EdgeBitmap 'obj 'obj "Probability \<Rightarrow> 'obj computation"

type_synonym 'obj closure = "'obj \<Rightarrow> 'obj \<Rightarrow> 'obj computation"

primrec run :: "'obj dispatch \<Rightarrow> 'obj computation \<Rightarrow> Probability" where
  \<comment> \<open>The value of a computation when the dispatch answers as \<open>d\<close> does.\<close>
  "run d (Return p) = p"
| "run d (CallMaxProbability edge potential target k) = run d (k (d edge potential target))"

primrec invocations :: "'obj dispatch \<Rightarrow> 'obj computation \<Rightarrow> nat" where
  \<comment> \<open>The number of invocations of the dispatch that a computation makes when the
     dispatch answers as \<open>d\<close> does.\<close>
  "invocations d (Return p) = 0"
| "invocations d (CallMaxProbability edge potential target k) =
     Suc (invocations d (k (d edge potential target)))"

text \<open>
  The dispatch of the engine is itself code that evaluates calculators, which may invoke
  the dispatch again: this is how an evaluation can fail to end. The code of the dispatch
  is missing, so it is a parameter here: \<open>engine edge potential target\<close> is the
  computation that the dispatch performs. Every invocation takes one unit of fuel; an
  evaluation that never ends is \<open>None\<close> for every amount of fuel.
\<close>

fun evaluate ::
  "nat \<Rightarrow> (EdgeBitmap \<Rightarrow> 'obj \<Rightarrow> 'obj \<Rightarrow> 'obj computation) \<Rightarrow> 'obj computation \<Rightarrow> Probability option"
where
  "evaluate fuel engine (Return p) = Some p"
| "evaluate 0 engine (CallMaxProbability edge potential target k) = None"
| "evaluate (Suc fuel) engine (CallMaxProbability edge potential target k) =
     (case evaluate fuel engine (engine edge potential target) of
        None \<Rightarrow> None
      | Some p \<Rightarrow> evaluate fuel engine (k p))"

text \<open>
  The closures handed to \<open>RegisterProbabilityCalculator\<close> in \<open>analyzer.go\<close>, each with the
  name of its edge kind, in the order of the \<open>var\<close> block.
\<close>

definition EdgeLocalRDPRights_closure :: "'obj closure" where
  \<comment> \<open>\<open>analyzer.go\<close>, lines 17 to 35; the only call of \<open>edge.MaxProbability\<close> stands
     inside the comment of lines 19 to 30.\<close>
  "EdgeLocalRDPRights_closure source target =
     (let probability = (0 :: Probability);
          probability = (if probability < 30 then 30 else probability)
      in Return probability)"

definition EdgeLocalDCOMRights_closure :: "'obj closure" where
  \<comment> \<open>\<open>analyzer.go\<close>, line 36\<close>
  "EdgeLocalDCOMRights_closure source target = Return 50"

definition EdgeLocalSMSAdmins_closure :: "'obj closure" where
  \<comment> \<open>\<open>analyzer.go\<close>, line 37\<close>
  "EdgeLocalSMSAdmins_closure source target = Return 50"

definition EdgeLocalSessionLastDay_closure :: "'obj closure" where
  \<comment> \<open>\<open>analyzer.go\<close>, line 38\<close>
  "EdgeLocalSessionLastDay_closure source target = Return 80"

definition EdgeLocalSessionLastWeek_closure :: "'obj closure" where
  \<comment> \<open>\<open>analyzer.go\<close>, line 39\<close>
  "EdgeLocalSessionLastWeek_closure source target = Return 55"

definition EdgeLocalSessionLastMonth_closure :: "'obj closure" where
  \<comment> \<open>\<open>analyzer.go\<close>, line 40\<close>
  "EdgeLocalSessionLastMonth_closure source target = Return 30"

definition EdgeSeImpersonate_closure :: "'obj closure" where
  \<comment> \<open>\<open>analyzer.go\<close>, line 62\<close>
  "EdgeSeImpersonate_closure source target = Return 20"

definition EdgeSeNetworkLogonRight_closure :: "'obj closure" where
  \<comment> \<open>\<open>analyzer.go\<close>, line 69\<close>
  "EdgeSeNetworkLogonRight_closure source target = Return 10"

definition EdgeSIDCollision_closure :: "'obj closure" where
  \<comment> \<open>\<open>analyzer.go\<close>, line 76\<close>
  "EdgeSIDCollision_closure source target = Return 0"

definition AnalyzerClosures :: "(string \<times> 'obj closure) list" where
  "AnalyzerClosures =
     [(''RDPRights'', EdgeLocalRDPRights_closure),
      (''DCOMRights'', EdgeLocalDCOMRights_closure),
      (''SMSAdmins'', EdgeLocalSMSAdmins_closure),
      (''SessionLastDay'', EdgeLocalSessionLastDay_closure),
      (''SessionLastWeek'', EdgeLocalSessionLastWeek_closure),
      (''SessionLastMonth'', EdgeLocalSessionLastMonth_closure),
      (''SeImpersonate'', EdgeSeImpersonate_closure),
      (''SeNetworkLogonRight'', EdgeSeNetworkLogonRight_closure),
      (''SIDCollision'', EdgeSIDCollision_closure)]"

section \<open>Path score\<close>

text \<open>
  Modelled from the spec: the path search of package \<open>engine\<close> is missing. One hop of a
  path is the source object, the edge kind taken and the target object.
\<close>

type_synonym 'obj hop = "'obj \<times> 'obj Edge \<times> 'obj"

definition Informative :: "'obj Edge \<Rightarrow> bool" where
  \<comment> \<open>Modelled from the spec: the tag test of the query engine is missing; "an
     informative tag marks edges that carry no offensive value".\<close>
  "Informative e = (''Informative'' \<in> set (Tags e))"

definition EdgeProbability :: "'obj dispatch \<Rightarrow> 'obj hop \<Rightarrow> Probability" where
  \<comment> \<open>Modelled from the spec: the evaluation of one edge by the query engine is missing;
     "each edge's probability is evaluated lazily via its calculator at traversal time",
     and "default (no calculator) is treated as maximal probability".\<close>
  "EdgeProbability d h =
     (case h of (source, e, target) \<Rightarrow>
        (case Calculator e of None \<Rightarrow> 100 | Some f \<Rightarrow> f d source target))"

fun Accumulate :: "'obj dispatch \<Rightarrow> Probability option \<Rightarrow> 'obj hop list \<Rightarrow> Probability option" where
  \<comment> \<open>Modelled from the spec: the scoring loop of the query engine is missing;
     "accumulating a path probability by combining per-edge probabilities", "path score
     is the minimum edge probability along the path", edges tagged informative "are
     excluded". The accumulator is \<open>None\<close> as long as no edge has been scored.\<close>
  "Accumulate d acc [] = acc"
| "Accumulate d acc ((source, e, target) # hs) =
     (if Informative e then Accumulate d acc hs
      else Accumulate d
             (Some (case acc of
                      None \<Rightarrow> EdgeProbability d (source, e, target)
                    | Some m \<Rightarrow> min m (EdgeProbability d (source, e, target)))) hs)"

definition Scored :: "'obj dispatch \<Rightarrow> 'obj hop list \<Rightarrow> Probability list" where
  \<comment> \<open>The probabilities of the edges of a path that are not tagged informative: what
     the specification takes the minimum of.\<close>
  "Scored d path =
     map (EdgeProbability d) (filter (\<lambda>(source, e, target). \<not> Informative e) path)"

definition PathScore :: "'obj dispatch \<Rightarrow> 'obj hop list \<Rightarrow> Probability option" where
  \<comment> \<open>Modelled from the spec: the path score of the query engine is missing.\<close>
  "PathScore d path = Accumulate d None path"

section \<open>Symbol registry\<close>

text \<open>
  Modelled from the spec: the registries of package \<open>engine\<close> are missing. A registry
  binds names to numeric handles and hands out a fresh handle at the first registration
  of a name.
\<close>

datatype error = ConfigurationError

record SymbolRegistry =
  handles :: "string \<rightharpoonup> nat"
  nextHandle :: nat

definition Register :: "string \<Rightarrow> SymbolRegistry \<Rightarrow> error + (nat \<times> SymbolRegistry)" where
  \<comment> \<open>Modelled from the spec: the registries of package engine (\<open>NewAttribute\<close>, \<open>NewEdge\<close>)
     are missing; a registry "interns a name string to a stable, immutable numeric
     handle, created on first use", and registering an empty name "is rejected with a
     configuration error". The registration takes the name alone, so the rejection of
     a duplicate with conflicting metadata has no place here. The result is the handle
     and the registry after the call.\<close>
  "Register name reg =
     (if name = [] then Inl ConfigurationError
      else case handles reg name of
             Some h \<Rightarrow> Inr (h, reg)
           | None \<Rightarrow>
               Inr (nextHandle reg,
                    reg\<lparr>handles := (handles reg)(name \<mapsto> nextHandle reg),
                        nextHandle := nextHandle reg + 1\<rparr>))"

fun RegisterAll :: "string list \<Rightarrow> SymbolRegistry \<Rightarrow> (error + nat) list" where
  \<comment> \<open>Modelled from the spec: the callers of the registries are missing. The results of
     a run of registrations, one after the other, on one registry; a rejected
     registration leaves the registry as it was.\<close>
  "RegisterAll [] reg = []"
| "RegisterAll (name # names) reg =
     (case Register name reg of
        Inl e \<Rightarrow> Inl e # RegisterAll names reg
      | Inr (h, reg') \<Rightarrow> Inr h # RegisterAll names reg')"

section \<open>Remapping of identifiers\<close>

lemma StripRID_nonempty: "sid \<noteq> [] \<Longrightarrow> StripRID sid = Some (butlast sid)"
  by (cases sid) (simp_all add: StripRID_def)

lemma RID_nonempty: "sid \<noteq> [] \<Longrightarrow> RID sid = Some (last sid)"
  by (cases sid) (simp_all add: RID_def)

lemma StripRID_Some_iff: "StripRID sid = Some p \<longleftrightarrow> sid \<noteq> [] \<and> butlast sid = p"
  by (cases sid) (auto simp: StripRID_def)

lemma Components_Suc_nonempty: "Components input = Components original + 1 \<Longrightarrow> input \<noteq> []"
  by (auto simp: Components_def)

lemma MapSID_cases:
  "MapSID original new input =
     Some (if length input = length original + 1 \<and> butlast input = original
           then new @ [last input] else input)"
proof (cases "Components input = Components original + 1")
  case True
  then have ne: "input \<noteq> []" by (rule Components_Suc_nonempty)
  from True have len: "length input = length original + 1" by (simp add: Components_def)
  show ?thesis
    using True len by (simp add: MapSID_def StripRID_nonempty [OF ne] RID_nonempty [OF ne]
        AddComponent_def)
next
  case False
  then have "length input \<noteq> length original + 1" by (simp add: Components_def)
  with False show ?thesis by (simp add: MapSID_def)
qed

text \<open>
  Claim C1. For all prefixes \<open>P\<close> and \<open>Q\<close> and every identifier \<open>sid\<close>, \<open>MapSID P Q sid\<close>
  returns \<open>Q\<close> with the last component of \<open>sid\<close> appended when \<open>sid\<close> has exactly one
  component more than \<open>P\<close> and \<open>sid\<close> without its last component equals \<open>P\<close>, and returns
  \<open>sid\<close> unchanged in every other case.
\<close>

theorem MapSID_remap:
  "MapSID P Q sid =
     Some (if length sid = length P + 1 \<and> butlast sid = P then Q @ [last sid] else sid)"
  by (rule MapSID_cases)

theorem MapSID_remap_witness:
  "MapSID [1, 5, 21, 111] [1, 5, 21, 222] [1, 5, 21, 111, 1001] = Some [1, 5, 21, 222, 1001]
   \<and> MapSID [1, 5, 21, 111] [1, 5, 21, 222] [1, 5, 21, 333, 1001] = Some [1, 5, 21, 333, 1001]"
  using MapSID_remap [of "[1, 5, 21, 111]" "[1, 5, 21, 222]" "[1, 5, 21, 111, 1001]"]
    MapSID_remap [of "[1, 5, 21, 111]" "[1, 5, 21, 222]" "[1, 5, 21, 333, 1001]"]
  by simp

text \<open>
  Claim C8. Remapping never fails: for every input identifier, also one without any
  component and one that does not match the original prefix, \<open>MapSID\<close> returns a result
  (no primitive is called where it has none), and where the identifier does not match,
  the result is the input unchanged.
\<close>

theorem MapSID_total:
  "(\<exists>r. MapSID P Q sid = Some r) \<and>
   (\<not> (Components sid = Components P + 1 \<and> StripRID sid = Some P) \<longrightarrow> MapSID P Q sid = Some sid)"
proof -
  have "Components sid = Components P + 1 \<and> StripRID sid = Some P
          \<longleftrightarrow> length sid = length P + 1 \<and> butlast sid = P"
    by (auto simp: Components_def StripRID_Some_iff)
  then show ?thesis by (simp add: MapSID_cases)
qed

theorem MapSID_total_witness:
  "MapSID [1, 5, 21, 111] [1, 5, 21, 222] [] = Some []
   \<and> MapSID [] [1, 5, 21, 222] [] = Some []
   \<and> MapSID [1, 5, 21, 111] [1, 5, 21, 222] [1, 5, 32, 544] = Some [1, 5, 32, 544]"
  using MapSID_total [of "[1, 5, 21, 111]" "[1, 5, 21, 222]" "[]"]
    MapSID_total [of "[]" "[1, 5, 21, 222]" "[]"]
    MapSID_total [of "[1, 5, 21, 111]" "[1, 5, 21, 222]" "[1, 5, 32, 544]"]
  by (simp add: Components_def StripRID_def)

text \<open>
  Claim C10. \<open>MapSID\<close> is idempotent: for all prefixes \<open>P\<close> and \<open>Q\<close> and every identifier
  \<open>sid\<close>, the call returns some \<open>r\<close>, and the same remap of \<open>r\<close> returns \<open>r\<close> again.
\<close>

theorem MapSID_idempotent:
  "\<exists>r. MapSID P Q sid = Some r \<and> MapSID P Q r = Some r"
proof (cases "length sid = length P + 1 \<and> butlast sid = P")
  case True
  then have first: "MapSID P Q sid = Some (Q @ [last sid])" by (simp add: MapSID_cases)
  from True have "sid \<noteq> []" by auto
  then have "butlast sid @ [last sid] = sid" by simp
  with True have "P @ [last sid] = sid" by simp
  then have "MapSID P Q (Q @ [last sid]) = Some (Q @ [last sid])"
    by (simp add: MapSID_cases)
  with first show ?thesis by simp
next
  case False
  then have "MapSID P Q sid = Some sid" by (auto simp: MapSID_cases)
  then show ?thesis by simp
qed

theorem MapSID_idempotent_witness:
  "MapSID [1, 5, 21, 111] [1, 5, 21, 222] [1, 5, 21, 111, 1001] = Some [1, 5, 21, 222, 1001]
   \<and> MapSID [1, 5, 21, 111] [1, 5, 21, 222] [1, 5, 21, 222, 1001] = Some [1, 5, 21, 222, 1001]"
proof -
  have first: "MapSID [1, 5, 21, 111] [1, 5, 21, 222] [1, 5, 21, 111, 1001]
                 = Some [1, 5, 21, 222, 1001]"
    by (simp add: MapSID_cases)
  from MapSID_idempotent [of "[1, 5, 21, 111]" "[1, 5, 21, 222]" "[1, 5, 21, 111, 1001]"]
  show ?thesis using first by auto
qed

section \<open>Probability calculators of the analyzer\<close>

lemma Calculator_builders:
  "Calculator (NewEdge name) = None"
  "Calculator (Tag t e) = Calculator e"
  "Calculator (Describe c e) = Calculator e"
  "Calculator (RegisterProbabilityCalculator f e) = Some f"
  by (simp_all add: NewEdge_def Tag_def Describe_def RegisterProbabilityCalculator_def)

lemma Name_builders:
  "Name (NewEdge name) = name"
  "Name (Tag t e) = Name e"
  "Name (Describe c e) = Name e"
  "Name (RegisterProbabilityCalculator f e) = Name e"
  by (simp_all add: NewEdge_def Tag_def Describe_def RegisterProbabilityCalculator_def)

lemma Tags_builders:
  "Tags (NewEdge name) = []"
  "Tags (Tag t e) = Tags e @ [t]"
  "Tags (Describe c e) = Tags e"
  "Tags (RegisterProbabilityCalculator f e) = Tags e"
  by (simp_all add: NewEdge_def Tag_def Describe_def RegisterProbabilityCalculator_def)

lemmas AnalyzerEdge_defs =
  EdgeLocalAdminRights_def EdgeLocalRDPRights_def EdgeLocalDCOMRights_def
  EdgeLocalSMSAdmins_def EdgeLocalSessionLastDay_def EdgeLocalSessionLastWeek_def
  EdgeLocalSessionLastMonth_def EdgeHasServiceAccountCredentials_def
  EdgeHasAutoAdminLogonCredentials_def EdgeRunsExecutable_def EdgeHosts_def EdgeExecuted_def
  EdgeMemberOfGroup_def EdgeFileWrite_def EdgeFileRead_def EdgeShares_def
  EdgeRegistryOwns_def EdgeRegistryWrite_def EdgeRegistryModifyDACL_def
  EdgeRegistryModifyOwner_def EdgeSeBackupPrivilege_def EdgeSeRestorePrivilege_def
  EdgeSeTakeOwnershipPrivilege_def EdgeSeAssignPrimaryToken_def EdgeSeCreateToken_def
  EdgeSeDebug_def EdgeSeImpersonate_def EdgeSeLoadDriver_def EdgeSeManageVolume_def
  EdgeSeTakeOwnership_def EdgeSeTrustedCredManAccess_def EdgeSeTcb_def
  EdgeSeNetworkLogonRight_def EdgeSIDCollision_def EdgeControlsUpdates_def EdgePublishes_def

lemma EdgeLocalRDPRights_calculator_30: "EdgeLocalRDPRights_calculator d source target = 30"
  by (simp add: EdgeLocalRDPRights_calculator_def)

lemma Calculator_EdgeLocalRDPRights:
  "Calculator EdgeLocalRDPRights = Some EdgeLocalRDPRights_calculator"
  by (simp add: EdgeLocalRDPRights_def Calculator_builders)

lemma Tags_EdgeLocalRDPRights: "Tags EdgeLocalRDPRights = [''Granted'', ''Pivot'']"
  by (simp add: EdgeLocalRDPRights_def Tags_builders)

lemma EdgeLocalRDPRights_in_AnalyzerEdges: "EdgeLocalRDPRights \<in> set AnalyzerEdges"
  by (simp add: AnalyzerEdges_def)

lemma AnalyzerEdges_calculators:
  assumes "e \<in> set AnalyzerEdges" and "Calculator e = Some f"
  shows "f = EdgeLocalRDPRights_calculator
         \<or> (\<exists>c \<in> {0, 10, 20, 30, 50, 55, 80}. f = (\<lambda>d source target. c))"
  using assms unfolding AnalyzerEdges_def
  by (auto simp: AnalyzerEdge_defs Calculator_builders)

lemmas AnalyzerClosure_defs =
  EdgeLocalRDPRights_closure_def EdgeLocalDCOMRights_closure_def EdgeLocalSMSAdmins_closure_def
  EdgeLocalSessionLastDay_closure_def EdgeLocalSessionLastWeek_closure_def
  EdgeLocalSessionLastMonth_closure_def EdgeSeImpersonate_closure_def
  EdgeSeNetworkLogonRight_closure_def EdgeSIDCollision_closure_def

text \<open>
  The hazard that the comment "ENDLESS LOOPS" of \<open>analyzer.go\<close> names: once the dispatch
  itself invokes the dispatch on the pair it was asked about, the evaluation of any
  computation that invokes it returns for no amount of fuel.
\<close>

lemma evaluate_reentrant_dispatch:
  "evaluate fuel (\<lambda>edge potential target. CallMaxProbability edge potential target Return)
     (CallMaxProbability edge potential target k) = None"
  by (induction fuel arbitrary: k) simp_all

lemma AnalyzerClosures_Return:
  assumes "(kind, body) \<in> set AnalyzerClosures"
  shows "\<exists>p. body source target = Return p"
  using assms unfolding AnalyzerClosures_def
  by (auto simp: AnalyzerClosure_defs)

lemma EdgeLocalRDPRights_closure_registered:
  "Name EdgeLocalRDPRights = ''RDPRights''"
  "Calculator EdgeLocalRDPRights =
     Some (\<lambda>d source target. run d (EdgeLocalRDPRights_closure source target))"
  "(''RDPRights'', EdgeLocalRDPRights_closure) \<in> set AnalyzerClosures"
  by (simp_all add: EdgeLocalRDPRights_def Name_builders Calculator_builders EdgeLocalRDPRights_closure_def
      EdgeLocalRDPRights_calculator_def fun_eq_iff AnalyzerClosures_def)

lemma EdgeLocalDCOMRights_closure_registered:
  "Name EdgeLocalDCOMRights = ''DCOMRights''"
  "Calculator EdgeLocalDCOMRights =
     Some (\<lambda>d source target. run d (EdgeLocalDCOMRights_closure source target))"
  "(''DCOMRights'', EdgeLocalDCOMRights_closure) \<in> set AnalyzerClosures"
  by (simp_all add: EdgeLocalDCOMRights_def Name_builders Calculator_builders EdgeLocalDCOMRights_closure_def
      AnalyzerClosures_def)

lemma EdgeLocalSMSAdmins_closure_registered:
  "Name EdgeLocalSMSAdmins = ''SMSAdmins''"
  "Calculator EdgeLocalSMSAdmins =
     Some (\<lambda>d source target. run d (EdgeLocalSMSAdmins_closure source target))"
  "(''SMSAdmins'', EdgeLocalSMSAdmins_closure) \<in> set AnalyzerClosures"
  by (simp_all add: EdgeLocalSMSAdmins_def Name_builders Calculator_builders EdgeLocalSMSAdmins_closure_def
      AnalyzerClosures_def)

lemma EdgeLocalSessionLastDay_closure_registered:
  "Name EdgeLocalSessionLastDay = ''SessionLastDay''"
  "Calculator EdgeLocalSessionLastDay =
     Some (\<lambda>d source target. run d (EdgeLocalSessionLastDay_closure source target))"
  "(''SessionLastDay'', EdgeLocalSessionLastDay_closure) \<in> set AnalyzerClosures"
  by (simp_all add: EdgeLocalSessionLastDay_def Name_builders Calculator_builders EdgeLocalSessionLastDay_closure_def
      AnalyzerClosures_def)

lemma EdgeLocalSessionLastWeek_closure_registered:
  "Name EdgeLocalSessionLastWeek = ''SessionLastWeek''"
  "Calculator EdgeLocalSessionLastWeek =
     Some (\<lambda>d source target. run d (EdgeLocalSessionLastWeek_closure source target))"
  "(''SessionLastWeek'', EdgeLocalSessionLastWeek_closure) \<in> set AnalyzerClosures"
  by (simp_all add: EdgeLocalSessionLastWeek_def Name_builders Calculator_builders EdgeLocalSessionLastWeek_closure_def
      AnalyzerClosures_def)

lemma EdgeLocalSessionLastMonth_closure_registered:
  "Name EdgeLocalSessionLastMonth = ''SessionLastMonth''"
  "Calculator EdgeLocalSessionLastMonth =
     Some (\<lambda>d source target. run d (EdgeLocalSessionLastMonth_closure source target))"
  "(''SessionLastMonth'', EdgeLocalSessionLastMonth_closure) \<in> set AnalyzerClosures"
  by (simp_all add: EdgeLocalSessionLastMonth_def Name_builders Calculator_builders EdgeLocalSessionLastMonth_closure_def
      AnalyzerClosures_def)

lemma EdgeSeImpersonate_closure_registered:
  "Name EdgeSeImpersonate = ''SeImpersonate''"
  "Calculator EdgeSeImpersonate =
     Some (\<lambda>d source target. run d (EdgeSeImpersonate_closure source target))"
  "(''SeImpersonate'', EdgeSeImpersonate_closure) \<in> set AnalyzerClosures"
  by (simp_all add: EdgeSeImpersonate_def Name_builders Calculator_builders EdgeSeImpersonate_closure_def
      AnalyzerClosures_def)

lemma EdgeSeNetworkLogonRight_closure_registered:
  "Name EdgeSeNetworkLogonRight = ''SeNetworkLogonRight''"
  "Calculator EdgeSeNetworkLogonRight =
     Some (\<lambda>d source target. run d (EdgeSeNetworkLogonRight_closure source target))"
  "(''SeNetworkLogonRight'', EdgeSeNetworkLogonRight_closure) \<in> set AnalyzerClosures"
  by (simp_all add: EdgeSeNetworkLogonRight_def Name_builders Calculator_builders EdgeSeNetworkLogonRight_closure_def
      AnalyzerClosures_def)

lemma EdgeSIDCollision_closure_registered:
  "Name EdgeSIDCollision = ''SIDCollision''"
  "Calculator EdgeSIDCollision =
     Some (\<lambda>d source target. run d (EdgeSIDCollision_closure source target))"
  "(''SIDCollision'', EdgeSIDCollision_closure) \<in> set AnalyzerClosures"
  by (simp_all add: EdgeSIDCollision_def Name_builders Calculator_builders EdgeSIDCollision_closure_def
      AnalyzerClosures_def)

lemma AnalyzerEdges_with_calculator:
  assumes "e \<in> set AnalyzerEdges" and "Calculator e = Some f"
  shows "e \<in> {EdgeLocalRDPRights,
            EdgeLocalDCOMRights,
            EdgeLocalSMSAdmins,
            EdgeLocalSessionLastDay,
            EdgeLocalSessionLastWeek,
            EdgeLocalSessionLastMonth,
            EdgeSeImpersonate,
            EdgeSeNetworkLogonRight,
            EdgeSIDCollision}"
  using assms unfolding AnalyzerEdges_def
  by (auto simp: Calculator_builders
      EdgeLocalAdminRights_def EdgeHasServiceAccountCredentials_def
      EdgeHasAutoAdminLogonCredentials_def EdgeRunsExecutable_def EdgeHosts_def
      EdgeExecuted_def EdgeMemberOfGroup_def EdgeFileWrite_def EdgeFileRead_def
      EdgeShares_def EdgeRegistryOwns_def EdgeRegistryWrite_def EdgeRegistryModifyDACL_def
      EdgeRegistryModifyOwner_def EdgeSeBackupPrivilege_def EdgeSeRestorePrivilege_def
      EdgeSeTakeOwnershipPrivilege_def EdgeSeAssignPrimaryToken_def EdgeSeCreateToken_def
      EdgeSeDebug_def EdgeSeLoadDriver_def EdgeSeManageVolume_def EdgeSeTakeOwnership_def
      EdgeSeTrustedCredManAccess_def EdgeSeTcb_def EdgeControlsUpdates_def
      EdgePublishes_def)

lemma AnalyzerEdges_closures:
  assumes "e \<in> set AnalyzerEdges" and "Calculator e = Some f"
  shows "\<exists>body. (Name e, body) \<in> set AnalyzerClosures
           \<and> f = (\<lambda>d source target. run d (body source target))"
proof -
  have "e \<in> {EdgeLocalRDPRights,
            EdgeLocalDCOMRights,
            EdgeLocalSMSAdmins,
            EdgeLocalSessionLastDay,
            EdgeLocalSessionLastWeek,
            EdgeLocalSessionLastMonth,
            EdgeSeImpersonate,
            EdgeSeNetworkLogonRight,
            EdgeSIDCollision}"
    using assms by (rule AnalyzerEdges_with_calculator)
  then consider "e = EdgeLocalRDPRights"
    | "e = EdgeLocalDCOMRights"
    | "e = EdgeLocalSMSAdmins"
    | "e = EdgeLocalSessionLastDay"
    | "e = EdgeLocalSessionLastWeek"
    | "e = EdgeLocalSessionLastMonth"
    | "e = EdgeSeImpersonate"
    | "e = EdgeSeNetworkLogonRight"
    | "e = EdgeSIDCollision"
    by blast
  then show ?thesis
  proof cases
    case 1
    then show ?thesis
      using assms(2) by (intro exI [of _ EdgeLocalRDPRights_closure]) (simp add: EdgeLocalRDPRights_closure_registered)
  next
    case 2
    then show ?thesis
      using assms(2) by (intro exI [of _ EdgeLocalDCOMRights_closure]) (simp add: EdgeLocalDCOMRights_closure_registered)
  next
    case 3
    then show ?thesis
      using assms(2) by (intro exI [of _ EdgeLocalSMSAdmins_closure]) (simp add: EdgeLocalSMSAdmins_closure_registered)
  next
    case 4
    then show ?thesis
      using assms(2) by (intro exI [of _ EdgeLocalSessionLastDay_closure]) (simp add: EdgeLocalSessionLastDay_closure_registered)
  next
    case 5
    then show ?thesis
      using assms(2) by (intro exI [of _ EdgeLocalSessionLastWeek_closure]) (simp add: EdgeLocalSessionLastWeek_closure_registered)
  next
    case 6
    then show ?thesis
      using assms(2) by (intro exI [of _ EdgeLocalSessionLastMonth_closure]) (simp add: EdgeLocalSessionLastMonth_closure_registered)
  next
    case 7
    then show ?thesis
      using assms(2) by (intro exI [of _ EdgeSeImpersonate_closure]) (simp add: EdgeSeImpersonate_closure_registered)
  next
    case 8
    then show ?thesis
      using assms(2) by (intro exI [of _ EdgeSeNetworkLogonRight_closure]) (simp add: EdgeSeNetworkLogonRight_closure_registered)
  next
    case 9
    then show ?thesis
      using assms(2) by (intro exI [of _ EdgeSIDCollision_closure]) (simp add: EdgeSIDCollision_closure_registered)
  qed
qed

text \<open>
  Claim C2. No calculator registered on an edge kind of the analyzer triggers the
  evaluation of another calculator: for every closure that \<open>analyzer.go\<close> registers and
  every pair of objects, the evaluation makes no invocation of the dispatch, whatever the
  dispatch would answer, and it returns a probability with no fuel at all, whatever the
  dispatch of the engine does. Every calculator registered on an edge kind is the value
  of one of these closures.
\<close>

theorem calculators_never_invoke_dispatch:
  "((kind, body) \<in> set AnalyzerClosures \<longrightarrow>
      (\<exists>p. body source target = Return p
           \<and> (\<forall>d. invocations d (body source target) = 0)
           \<and> (\<forall>fuel engine. evaluate fuel engine (body source target) = Some p)))
   \<and> (e \<in> set AnalyzerEdges \<and> Calculator e = Some f \<longrightarrow>
        (\<exists>body'. (Name e, body') \<in> set AnalyzerClosures
                \<and> f = (\<lambda>d source target. run d (body' source target))))"
proof (intro conjI impI)
  assume "(kind, body) \<in> set AnalyzerClosures"
  from AnalyzerClosures_Return [OF this, of source target]
  obtain p where "body source target = Return p" ..
  then show "\<exists>p. body source target = Return p
           \<and> (\<forall>d. invocations d (body source target) = 0)
           \<and> (\<forall>fuel engine. evaluate fuel engine (body source target) = Some p)"
    by simp
next
  assume "e \<in> set AnalyzerEdges \<and> Calculator e = Some f"
  then have "e \<in> set AnalyzerEdges" and "Calculator e = Some f" by simp_all
  then show "\<exists>body'. (Name e, body') \<in> set AnalyzerClosures
                \<and> f = (\<lambda>d source target. run d (body' source target))"
    by (rule AnalyzerEdges_closures)
qed

theorem calculators_never_invoke_dispatch_witness:
  "(''RDPRights'', EdgeLocalRDPRights_closure :: nat closure) \<in> set AnalyzerClosures
   \<and> invocations (\<lambda>edge a b. 100) (EdgeLocalRDPRights_closure (1 :: nat) (2 :: nat)) = 0
   \<and> evaluate 0 (\<lambda>edge a b. CallMaxProbability edge a b Return)
        (EdgeLocalRDPRights_closure (1 :: nat) (2 :: nat)) = Some 30
   \<and> (EdgeLocalRDPRights :: nat Edge) \<in> set AnalyzerEdges
   \<and> Calculator (EdgeLocalRDPRights :: nat Edge)
        = Some (\<lambda>d source target. run d (EdgeLocalRDPRights_closure source target))"
  using calculators_never_invoke_dispatch [of "''RDPRights''"
      "EdgeLocalRDPRights_closure :: nat closure" "1 :: nat" "2 :: nat"
      "EdgeLocalRDPRights :: nat Edge"
      "\<lambda>d source target. run d (EdgeLocalRDPRights_closure source target)"]
  by (simp add: EdgeLocalRDPRights_closure_registered EdgeLocalRDPRights_in_AnalyzerEdges
      EdgeLocalRDPRights_closure_def)

text \<open>
  Claim C3. The calculator of the edge kind \<open>RDPRights\<close> falls back to a constant floor:
  on every pair of objects its result is at least 30.
\<close>

theorem EdgeLocalRDPRights_floor:
  "\<exists>f. Calculator EdgeLocalRDPRights = Some f \<and> (\<forall>d source target. 30 \<le> f d source target)"
  by (simp add: Calculator_EdgeLocalRDPRights EdgeLocalRDPRights_calculator_30)

theorem EdgeLocalRDPRights_floor_witness:
  "30 \<le> EdgeLocalRDPRights_calculator (\<lambda>edge a b. 100) (1 :: nat) (2 :: nat)"
  using EdgeLocalRDPRights_floor [where 'a = nat]
  by (simp add: Calculator_EdgeLocalRDPRights)

text \<open>
  Claim C4. Every calculator registered on an edge kind of the analyzer returns a value
  of the range 0 to 100 on every pair of objects.
\<close>

theorem calculators_in_range:
  "e \<in> set AnalyzerEdges \<Longrightarrow> Calculator e = Some f \<Longrightarrow>
     0 \<le> f d source target \<and> f d source target \<le> 100"
  by (drule (1) AnalyzerEdges_calculators) (auto simp: EdgeLocalRDPRights_calculator_30)

theorem calculators_in_range_witness:
  "(EdgeLocalRDPRights :: nat Edge) \<in> set AnalyzerEdges
   \<and> Calculator (EdgeLocalRDPRights :: nat Edge) = Some EdgeLocalRDPRights_calculator
   \<and> 0 \<le> EdgeLocalRDPRights_calculator (\<lambda>edge a b. 0) (1 :: nat) (2 :: nat)
   \<and> EdgeLocalRDPRights_calculator (\<lambda>edge a b. 0) (1 :: nat) (2 :: nat) \<le> 100"
  using calculators_in_range [OF EdgeLocalRDPRights_in_AnalyzerEdges
      Calculator_EdgeLocalRDPRights, of "\<lambda>edge a b. 0" "1 :: nat" "2 :: nat"]
  by (simp add: EdgeLocalRDPRights_in_AnalyzerEdges Calculator_EdgeLocalRDPRights)

text \<open>
  Claim C9. The calculator of the edge kind \<open>RDPRights\<close> is a constant function: its
  results on any two pairs of objects are equal, and the result is exactly 30.
\<close>

theorem EdgeLocalRDPRights_constant:
  "\<exists>f. Calculator EdgeLocalRDPRights = Some f \<and>
     (\<forall>d source target d' source' target'.
        f d source target = f d' source' target' \<and> f d source target = 30)"
  by (simp add: Calculator_EdgeLocalRDPRights EdgeLocalRDPRights_calculator_30)

theorem EdgeLocalRDPRights_constant_witness:
  "EdgeLocalRDPRights_calculator (\<lambda>edge a b. 0) (1 :: nat) (2 :: nat)
     = EdgeLocalRDPRights_calculator (\<lambda>edge a b. 100) (3 :: nat) (4 :: nat)
   \<and> EdgeLocalRDPRights_calculator (\<lambda>edge a b. 0) (1 :: nat) (2 :: nat) = 30"
  using EdgeLocalRDPRights_constant [where 'a = nat]
  by (simp add: Calculator_EdgeLocalRDPRights)

section \<open>Path score\<close>

lemma Scored_Nil: "Scored d [] = []"
  by (simp add: Scored_def)

lemma Scored_Cons:
  "Scored d ((source, e, target) # hs) =
     (if Informative e then Scored d hs
      else EdgeProbability d (source, e, target) # Scored d hs)"
  by (simp add: Scored_def)

lemma Scored_append: "Scored d (xs @ ys) = Scored d xs @ Scored d ys"
  by (simp add: Scored_def)

lemma Accumulate_Some:
  "Accumulate d (Some m) hs = Some (Min (insert m (set (Scored d hs))))"
proof (induction hs arbitrary: m)
  case Nil
  show ?case by (simp add: Scored_Nil)
next
  case (Cons h hs)
  obtain s e t where h: "h = (s, e, t)" by (cases h)
  show ?case
  proof (cases "Informative e")
    case True
    then show ?thesis using Cons.IH [of m] by (simp add: h Scored_Cons)
  next
    case False
    let ?p = "EdgeProbability d (s, e, t)"
    let ?S = "set (Scored d hs)"
    have "Accumulate d (Some m) (h # hs) = Some (Min (insert (min m ?p) ?S))"
      using False Cons.IH [of "min m ?p"] by (simp add: h)
    also have "Min (insert (min m ?p) ?S) = Min (insert m (insert ?p ?S))"
    proof (cases "?S = {}")
      case True
      then show ?thesis by simp
    next
      case False
      then show ?thesis by (simp add: min.assoc)
    qed
    finally show ?thesis using False by (simp add: h Scored_Cons)
  qed
qed

lemma Accumulate_None:
  "Accumulate d None hs =
     (if Scored d hs = [] then None else Some (Min (set (Scored d hs))))"
proof (induction hs)
  case Nil
  show ?case by (simp add: Scored_Nil)
next
  case (Cons h hs)
  obtain s e t where h: "h = (s, e, t)" by (cases h)
  show ?case
  proof (cases "Informative e")
    case True
    then show ?thesis using Cons.IH by (simp add: h Scored_Cons)
  next
    case False
    then show ?thesis by (simp add: h Scored_Cons Accumulate_Some)
  qed
qed

lemma Calculator_EdgeSIDCollision:
  "Calculator EdgeSIDCollision = Some (\<lambda>d source target. 0)"
  by (simp add: EdgeSIDCollision_def Calculator_builders)

lemma Informative_EdgeSIDCollision: "Informative EdgeSIDCollision"
  by (simp add: Informative_def EdgeSIDCollision_def Tags_builders)

lemma not_Informative_EdgeLocalRDPRights: "\<not> Informative EdgeLocalRDPRights"
  by (simp add: Informative_def Tags_EdgeLocalRDPRights)

lemma EdgeProbability_EdgeLocalRDPRights:
  "EdgeProbability d (source, EdgeLocalRDPRights, target) = 30"
  by (simp add: EdgeProbability_def Calculator_EdgeLocalRDPRights
      EdgeLocalRDPRights_calculator_30)

lemma PathScore_skips_informative:
  assumes "Informative e"
  shows "PathScore d (before @ (source, e, target) # after) = PathScore d (before @ after)"
proof -
  have "Scored d (before @ (source, e, target) # after) = Scored d (before @ after)"
    using assms by (simp add: Scored_append Scored_Cons)
  then show ?thesis by (simp add: PathScore_def Accumulate_None)
qed

text \<open>
  Claim C5. The edge kind \<open>SIDCollision\<close> carries probability zero (its calculator
  returns 0 on every pair of objects) and is tagged "Informative", so it is excluded from
  path scoring: a hop over it anywhere in a path leaves the score of the path as it is
  without the hop.
\<close>

theorem EdgeSIDCollision_informative_zero:
  "(\<exists>f. Calculator EdgeSIDCollision = Some f \<and> (\<forall>d source target. f d source target = 0))
   \<and> ''Informative'' \<in> set (Tags EdgeSIDCollision)
   \<and> (\<forall>d before source target after.
         PathScore d (before @ (source, EdgeSIDCollision, target) # after)
           = PathScore d (before @ after))"
  by (simp add: Calculator_EdgeSIDCollision Informative_EdgeSIDCollision [unfolded Informative_def]
      PathScore_skips_informative [OF Informative_EdgeSIDCollision])

theorem EdgeSIDCollision_informative_zero_witness:
  "PathScore (\<lambda>edge a b. 0)
     [(1 :: nat, EdgeLocalRDPRights, 2 :: nat), (2, EdgeSIDCollision, 3)] = Some 30"
proof -
  have "PathScore (\<lambda>edge a b. 0) [(1 :: nat, EdgeLocalRDPRights, 2 :: nat)] = Some 30"
    by (simp add: PathScore_def not_Informative_EdgeLocalRDPRights
        EdgeProbability_EdgeLocalRDPRights)
  with EdgeSIDCollision_informative_zero [where 'a = nat] show ?thesis
    by (metis append_Cons append_Nil)
qed

text \<open>
  Claim C6. The score of a path is the minimum of the probabilities of its edges that
  are not tagged informative (there is a score as soon as the path has such an edge);
  in particular a path of a single such edge to which the calculator assigns probability
  30 scores exactly 30.
\<close>

theorem PathScore_minimum:
  "PathScore d path =
     (if Scored d path = [] then None else Some (Min (set (Scored d path))))
   \<and> (\<not> Informative e \<and> EdgeProbability d (source, e, target) = 30 \<longrightarrow>
        PathScore d [(source, e, target)] = Some 30)"
  by (simp add: PathScore_def Accumulate_None)

theorem PathScore_minimum_witness:
  "\<not> Informative (EdgeLocalRDPRights :: nat Edge)
   \<and> EdgeProbability (\<lambda>edge a b. 0) (1 :: nat, EdgeLocalRDPRights, 2 :: nat) = 30
   \<and> PathScore (\<lambda>edge a b. 0) [(1 :: nat, EdgeLocalRDPRights, 2 :: nat)] = Some 30"
  using PathScore_minimum [of "\<lambda>edge a b. 0" "[]" "EdgeLocalRDPRights :: nat Edge"
      "1 :: nat" "2 :: nat"]
  by (simp add: not_Informative_EdgeLocalRDPRights EdgeProbability_EdgeLocalRDPRights)

section \<open>Registration of names\<close>

lemma handles_Register:
  assumes "Register name reg = Inr (h, reg')" and "handles reg n = Some k"
  shows "handles reg' n = Some k"
  using assms by (auto simp: Register_def split: if_splits option.splits)

lemma Register_known:
  assumes "handles reg n = Some k" and "n \<noteq> []"
  shows "Register n reg = Inr (k, reg)"
  using assms by (simp add: Register_def)

lemma Register_handles:
  assumes "Register n reg = Inr (h, reg')"
  shows "handles reg' n = Some h \<and> n \<noteq> []"
  using assms by (auto simp: Register_def split: if_splits option.splits)

lemma Register_nonempty:
  assumes "n \<noteq> []"
  shows "\<exists>h reg'. Register n reg = Inr (h, reg')"
  using assms by (cases "handles reg n") (simp_all add: Register_def)

lemma RegisterAll_known:
  assumes "handles reg n = Some k" and "n \<noteq> []" and "j < length ns" and "ns ! j = n"
  shows "RegisterAll ns reg ! j = Inr k"
  using assms
proof (induction ns arbitrary: reg j)
  case Nil
  then show ?case by simp
next
  case (Cons m ns)
  show ?case
  proof (cases j)
    case 0
    with Cons.prems have "m = n" by simp
    then show ?thesis using 0 Cons.prems(1,2) by (simp add: Register_known)
  next
    case (Suc i)
    with Cons.prems have i: "i < length ns" "ns ! i = n" by simp_all
    show ?thesis
    proof (cases "Register m reg")
      case (Inl e)
      then show ?thesis using Suc Cons.IH [OF Cons.prems(1,2) i] by simp
    next
      case (Inr r)
      obtain h reg' where r: "r = (h, reg')" by (cases r)
      have "handles reg' n = Some k"
        using Inr r Cons.prems(1) by (auto intro: handles_Register)
      then show ?thesis using Suc Inr r Cons.IH [OF _ Cons.prems(2) i] by simp
    qed
  qed
qed

text \<open>
  Claim C7. Registration is idempotent: every name that is not empty registers, and once
  a registration of a name has returned a handle, every later registration of that name,
  whatever other names are registered in between, returns the identical handle.
\<close>

theorem Register_idempotent:
  "(n \<noteq> [] \<longrightarrow> (\<exists>h reg'. Register n reg = Inr (h, reg')))
   \<and> (Register n reg = Inr (h, reg') \<and> j < length ns \<and> ns ! j = n \<longrightarrow>
        RegisterAll ns reg' ! j = Inr h)"
proof -
  have "RegisterAll ns reg' ! j = Inr h"
    if "Register n reg = Inr (h, reg')" and "j < length ns" and "ns ! j = n"
    using Register_handles [OF that(1)] that(2,3) by (auto intro: RegisterAll_known)
  then show ?thesis by (simp add: Register_nonempty)
qed

theorem Register_idempotent_witness:
  "Register ''RDPRights'' \<lparr>handles = Map.empty, nextHandle = 0\<rparr>
     = Inr (0, \<lparr>handles = [''RDPRights'' \<mapsto> 0], nextHandle = 1\<rparr>)
   \<and> RegisterAll [''RDPRights'', ''AdminRights'', ''RDPRights'']
        \<lparr>handles = [''RDPRights'' \<mapsto> 0], nextHandle = 1\<rparr> ! 2 = Inr 0"
proof -
  have first: "Register ''RDPRights'' \<lparr>handles = Map.empty, nextHandle = 0\<rparr>
                 = Inr (0, \<lparr>handles = [''RDPRights'' \<mapsto> 0], nextHandle = 1\<rparr>)"
    by (simp add: Register_def)
  from Register_idempotent [of "''RDPRights''" "\<lparr>handles = Map.empty, nextHandle = 0\<rparr>" 0
      "\<lparr>handles = [''RDPRights'' \<mapsto> 0], nextHandle = 1\<rparr>" 2
      "[''RDPRights'', ''AdminRights'', ''RDPRights'']"] first
  show ?thesis by simp
qed

end
